theory Spec2Isabelle
  imports Main "HOL-Library.Word" "HOL-Library.Sublist"
begin

section \<open>Sony camera BLE remote: command registry, identifier filter, client\<close>

text \<open>
  A shallow embedding of the Go packages \<^verbatim>\<open>sony_remote_ble\<close> (commands.go, client.go) and
  of the device list of the terminal UI (\<^verbatim>\<open>Model.addDevice\<close>).

  Go strings are byte sequences; \<open>string\<close> (a list of 8-bit characters) models them byte
  for byte, so \<open>length\<close> is Go's \<^verbatim>\<open>len\<close> and \<open>take n (drop i s)\<close> is the slice
  \<^verbatim>\<open>s[i:i+n]\<close>.
\<close>

subsection \<open>commands.go\<close>

type_synonym byte = "8 word"

definition SonyServiceUUID :: string where
  "SonyServiceUUID = ''8000ff00-ff00-ffff-ffff-ffffffffffff''"

definition CommandCharUUID :: string where
  "CommandCharUUID = ''0000ff01-0000-1000-8000-00805f9b34fb''"

record SonyCommand =
  Name :: string
  Code :: "byte list"

text \<open>The zero value of the struct: what indexing a Go map yields for an absent key.\<close>

definition zeroSonyCommand :: SonyCommand where
  "zeroSonyCommand = \<lparr>Name = [], Code = []\<rparr>"

text \<open>The map literal, in source order. Its keys are pairwise different.\<close>

definition Commands :: "(string \<times> SonyCommand) list" where
  "Commands =
    [(''focus_down'',        \<lparr>Name = ''Focus Down'',        Code = [0x01, 0x07]\<rparr>),
     (''focus_up'',          \<lparr>Name = ''Focus Up'',          Code = [0x01, 0x06]\<rparr>),
     (''autofocus_down'',    \<lparr>Name = ''AutoFocus Down'',    Code = [0x01, 0x15]\<rparr>),
     (''autofocus_up'',      \<lparr>Name = ''AutoFocus Up'',      Code = [0x01, 0x14]\<rparr>),
     (''shutter_half_down'', \<lparr>Name = ''Shutter Half Down'', Code = [0x01, 0x07]\<rparr>),
     (''shutter_half_up'',   \<lparr>Name = ''Shutter Half Up'',   Code = [0x01, 0x06]\<rparr>),
     (''shutter_full_down'', \<lparr>Name = ''Shutter Full Down'', Code = [0x01, 0x09]\<rparr>),
     (''shutter_full_up'',   \<lparr>Name = ''Shutter Full Up'',   Code = [0x01, 0x08]\<rparr>),
     (''record_toggle'',     \<lparr>Name = ''Toggle Record'',     Code = [0x01, 0x0e]\<rparr>),
     (''record_down'',       \<lparr>Name = ''Record Down'',       Code = [0x01, 0x0f]\<rparr>),
     (''zoom_in_down'',      \<lparr>Name = ''Zoom In Down'',      Code = [0x02, 0x6d, 0x20]\<rparr>),
     (''zoom_in_up'',        \<lparr>Name = ''Zoom In Up'',        Code = [0x02, 0x6c, 0x00]\<rparr>),
     (''zoom_out_down'',     \<lparr>Name = ''Zoom Out Down'',     Code = [0x02, 0x6b, 0x20]\<rparr>),
     (''zoom_out_up'',       \<lparr>Name = ''Zoom Out Up'',       Code = [0x02, 0x6a, 0x00]\<rparr>),
     (''c1_down'',           \<lparr>Name = ''C1 Down'',           Code = [0x01, 0x21]\<rparr>),
     (''c1_up'',             \<lparr>Name = ''C1 Up'',             Code = [0x01, 0x20]\<rparr>)]"

text \<open>\<^verbatim>\<open>cmd, exists := Commands[key]\<close>: the two-valued map read.\<close>

definition Commands_lookup :: "string \<Rightarrow> SonyCommand option" where
  "Commands_lookup key = map_of Commands key"

text \<open>\<^verbatim>\<open>Commands[key]\<close>: the one-valued map read, the zero value for an absent key.\<close>

definition Commands_index :: "string \<Rightarrow> SonyCommand" where
  "Commands_index key = (case map_of Commands key of Some cmd \<Rightarrow> cmd | None \<Rightarrow> zeroSonyCommand)"

definition TakePhotoSequence :: "SonyCommand list" where
  "TakePhotoSequence =
    [Commands_index ''focus_down'',
     Commands_index ''shutter_full_down'',
     Commands_index ''shutter_full_up'',
     Commands_index ''focus_up'']"

subsection \<open>client.go: the identifier filter\<close>

text \<open>The alpha symbol is the two bytes CE B1 of its UTF-8 encoding.\<close>

definition sonyIdentifiers :: "string list" where
  "sonyIdentifiers = [''Sony'', ''ILCE'', ''DSC'', ''FX'', [CHR 0xCE, CHR 0xB1], ''Alpha'']"

text \<open>
  The inner loop \<^verbatim>\<open>for i := 0; i <= len(name)-len(identifier); i++\<close>, entered at index
  \<open>i\<close>. The bound is computed on Go's signed \<^verbatim>\<open>int\<close>, hence on \<open>int\<close> here.
\<close>

function matchFrom :: "string \<Rightarrow> string \<Rightarrow> nat \<Rightarrow> bool" where
  "matchFrom name identifier i =
     (if int i \<le> int (length name) - int (length identifier)
      then (if take (length identifier) (drop i name) = identifier then True
            else matchFrom name identifier (i + 1))
      else False)"
  by pat_completeness auto
termination
  by (relation "measure (\<lambda>(name, identifier, i). length name + 1 - i)") auto

declare matchFrom.simps [simp del]

text \<open>The outer loop \<^verbatim>\<open>for _, identifier := range sonyIdentifiers\<close>.\<close>

fun identifierLoop :: "string \<Rightarrow> string list \<Rightarrow> bool" where
  "identifierLoop name [] = False"
| "identifierLoop name (identifier # rest) =
     (if length name \<ge> length identifier
      then (if matchFrom name identifier 0 then True else identifierLoop name rest)
      else identifierLoop name rest)"

definition containsSonyIdentifier :: "string \<Rightarrow> bool" where
  "containsSonyIdentifier name = identifierLoop name sonyIdentifiers"

subsection \<open>client.go: data\<close>

datatype ConnectionState = Disconnected | Scanning | Connecting | Connected | Error

text \<open>
  \<open>String\<close>; its default branch (``Unknown'') is for integers that are none of the five
  constants, which the datatype does not have.
\<close>

fun ConnectionState_String :: "ConnectionState \<Rightarrow> string" where
  "ConnectionState_String Disconnected = ''Disconnected''"
| "ConnectionState_String Scanning = ''Scanning''"
| "ConnectionState_String Connecting = ''Connecting''"
| "ConnectionState_String Connected = ''Connected''"
| "ConnectionState_String Error = ''Error''"

text \<open>
  Go error values as the client builds them: \<^verbatim>\<open>errors.New(msg)\<close> and
  \<^verbatim>\<open>fmt.Errorf(msg + ": %w", err)\<close>. The errors of the Bluetooth library are values of
  the same type, handed in by the environment.
\<close>

datatype go_error = errors_New string | Errorf_w string go_error

text \<open>
  The types of the Bluetooth library are opaque to the client. An address has a string
  form; a device, a service and a characteristic are handles, 0 the zero value of the Go
  struct.
\<close>

datatype Address = MkAddress string
datatype UUID = MkUUID nat
datatype Device = MkDevice nat
datatype DeviceService = MkDeviceService nat
datatype DeviceCharacteristic = MkDeviceCharacteristic nat

fun Address_String :: "Address \<Rightarrow> string" where
  "Address_String (MkAddress s) = s"




text \<open>
  The client struct without its adapter pointer (the adapter is the environment below).
  \<open>stopScan\<close> holds the values pending in the channel \<^verbatim>\<open>make(chan bool, 1)\<close>.
\<close>

record Client =
  device :: Device
  service :: DeviceService
  char :: DeviceCharacteristic
  state :: ConnectionState
  deviceName :: string
  lastError :: "go_error option"
  stopScan :: "bool list"

record DeviceInfo =
  Name_DeviceInfo :: string
  Address :: Address
  AddressStr :: string
  RSSI :: "16 word"

text \<open>
  What the client does to the outside: each call of \<^verbatim>\<open>WriteWithoutResponse\<close> with its
  characteristic, payload and outcome, and each \<^verbatim>\<open>time.Sleep\<close> with its duration in
  nanoseconds, oldest first.
\<close>

datatype event =
  Write DeviceCharacteristic "byte list" "go_error option"
| Sleep "64 word"

text \<open>
  The Bluetooth library and the radio behind it: the outcome of every call the client
  makes. A Go pair \<^verbatim>\<open>(value, err)\<close> of which the client reads one component is a sum;
  \<^verbatim>\<open>ParseUUID\<close> returns both. The outcome of a write may depend on everything done so far.
\<close>

record Stack =
  adapter_Enable :: "go_error option"
  adapter_Connect :: "Address \<Rightarrow> go_error + Device"
  device_DiscoverServices :: "Device \<Rightarrow> UUID list \<Rightarrow> go_error + DeviceService list"
  service_DiscoverCharacteristics ::
    "DeviceService \<Rightarrow> UUID list \<Rightarrow> go_error + DeviceCharacteristic list"
  device_Disconnect :: "Device \<Rightarrow> go_error option"
  char_WriteWithoutResponse ::
    "event list \<Rightarrow> DeviceCharacteristic \<Rightarrow> byte list \<Rightarrow> go_error option"
  ParseUUID :: "string \<Rightarrow> UUID \<times> go_error option"

text \<open>commands.go: both functions drop the error of \<^verbatim>\<open>ParseUUID\<close>.\<close>

definition ServiceUUID :: "Stack \<Rightarrow> UUID" where
  "ServiceUUID st = fst (ParseUUID st SonyServiceUUID)"

definition CharacteristicUUID :: "Stack \<Rightarrow> UUID" where
  "CharacteristicUUID st = fst (ParseUUID st CommandCharUUID)"

subsection \<open>client.go: operations\<close>

definition NewClient :: "Stack \<Rightarrow> go_error + Client" where
  "NewClient st =
     (case adapter_Enable st of
        Some err \<Rightarrow> Inl (Errorf_w ''failed to enable adapter'' err)
      | None \<Rightarrow>
          Inr \<lparr>device = MkDevice 0, service = MkDeviceService 0,
               char = MkDeviceCharacteristic 0, state = Disconnected,
               deviceName = [], lastError = None, stopScan = []\<rparr>)"

definition State :: "Client \<Rightarrow> ConnectionState" where
  "State c = state c"

definition DeviceName :: "Client \<Rightarrow> string" where
  "DeviceName c = deviceName c"

definition LastError :: "Client \<Rightarrow> go_error option" where
  "LastError c = lastError c"








definition Connect :: "Stack \<Rightarrow> Client \<Rightarrow> Address \<Rightarrow> go_error option \<times> Client" where
  "Connect st c address =
     (let c1 = c\<lparr>state := Connecting, lastError := None\<rparr> in
      case adapter_Connect st address of
        Inl err \<Rightarrow>
          (let c2 = c1\<lparr>lastError := Some (Errorf_w ''failed to connect'' err)\<rparr>;
               c3 = c2\<lparr>state := Error\<rparr>
           in (lastError c3, c3))
      | Inr dev \<Rightarrow>
          (let c2 = c1\<lparr>device := dev\<rparr> in
           case device_DiscoverServices st dev [ServiceUUID st] of
             Inl err \<Rightarrow>
               (let c3 = c2\<lparr>lastError := Some (Errorf_w ''failed to discover services'' err)\<rparr>;
                    c4 = c3\<lparr>state := Error\<rparr>
                in (lastError c4, c4))
           | Inr services \<Rightarrow>
               (case services of
                  [] \<Rightarrow>
                    (let c3 = c2\<lparr>lastError := Some (errors_New ''Sony camera service not found'')\<rparr>;
                         c4 = c3\<lparr>state := Error\<rparr>
                     in (lastError c4, c4))
                | services0 # _ \<Rightarrow>
                    (let c3 = c2\<lparr>service := services0\<rparr> in
                     case service_DiscoverCharacteristics st (service c3) [CharacteristicUUID st] of
                       Inl err \<Rightarrow>
                         (let c4 = c3\<lparr>lastError :=
                                        Some (Errorf_w ''failed to discover characteristics'' err)\<rparr>;
                              c5 = c4\<lparr>state := Error\<rparr>
                          in (lastError c5, c5))
                     | Inr chars \<Rightarrow>
                         (case chars of
                            [] \<Rightarrow>
                              (let c4 = c3\<lparr>lastError :=
                                             Some (errors_New ''command characteristic not found'')\<rparr>;
                                   c5 = c4\<lparr>state := Error\<rparr>
                               in (lastError c5, c5))
                          | chars0 # _ \<Rightarrow>
                              (None, c3\<lparr>char := chars0, state := Connected,
                                        deviceName := Address_String address\<rparr>))))))"



definition Disconnect :: "Stack \<Rightarrow> Client \<Rightarrow> go_error option \<times> Client" where
  "Disconnect st c =
     (if state c = Connected
      then (case device_Disconnect st (device c) of
              Some err \<Rightarrow> (Some err, c\<lparr>lastError := Some err, state := Error\<rparr>)
            | None \<Rightarrow> (None, c\<lparr>state := Disconnected, deviceName := []\<rparr>))
      else (None, c\<lparr>state := Disconnected, deviceName := []\<rparr>))"

text \<open>
  \<open>SendCommand\<close> and what follows take the trace of events so far and return it
  extended. The number of bytes written, which the client drops, is not modelled.
\<close>

definition SendCommand ::
  "Stack \<Rightarrow> Client \<Rightarrow> event list \<Rightarrow> SonyCommand \<Rightarrow> go_error option \<times> Client \<times> event list" where
  "SendCommand st c tr cmd =
     (if state c \<noteq> Connected
      then (Some (errors_New ''not connected to device''), c, tr)
      else (case char_WriteWithoutResponse st tr (char c) (Code cmd) of
              Some err \<Rightarrow>
                (let c1 = c\<lparr>lastError :=
                             Some (Errorf_w (''failed to send command '' @ Name cmd) err)\<rparr>
                 in (lastError c1, c1, tr @ [Write (char c) (Code cmd) (Some err)]))
            | None \<Rightarrow> (None, c, tr @ [Write (char c) (Code cmd) None])))"

fun SendCommandSequence ::
  "Stack \<Rightarrow> Client \<Rightarrow> event list \<Rightarrow> SonyCommand list \<Rightarrow> 64 word
     \<Rightarrow> go_error option \<times> Client \<times> event list" where
  "SendCommandSequence st c tr [] delay = (None, c, tr)"
| "SendCommandSequence st c tr (cmd # commands) delay =
     (case SendCommand st c tr cmd of
        (Some err, c1, tr1) \<Rightarrow> (Some err, c1, tr1)
      | (None, c1, tr1) \<Rightarrow>
          SendCommandSequence st c1 (if 0 <s delay then tr1 @ [Sleep delay] else tr1)
            commands delay)"

text \<open>50 ms in nanoseconds.\<close>

definition TakePhoto ::
  "Stack \<Rightarrow> Client \<Rightarrow> event list \<Rightarrow> go_error option \<times> Client \<times> event list" where
  "TakePhoto st c tr = SendCommandSequence st c tr TakePhotoSequence (50 * 1000000)"

text \<open>The payloads handed to the characteristic, and those whose write succeeded.\<close>

fun attempted :: "event list \<Rightarrow> byte list list" where
  "attempted [] = []"
| "attempted (Write ch payload outcome # tr) = payload # attempted tr"
| "attempted (Sleep d # tr) = attempted tr"

fun written :: "event list \<Rightarrow> byte list list" where
  "written [] = []"
| "written (Write ch payload None # tr) = payload # written tr"
| "written (Write ch payload (Some err) # tr) = written tr"
| "written (Sleep d # tr) = written tr"

subsection \<open>The device list of the terminal UI\<close>

text \<open>
  Of the UI model, the two fields \<open>addDevice\<close> touches. The formatted clock reading of
  \<^verbatim>\<open>time.Now()\<close> is the argument \<open>now\<close>.
\<close>

record Model =
  devices :: "DeviceInfo list"
  logs :: "string list"

definition addLog :: "string \<Rightarrow> string \<Rightarrow> Model \<Rightarrow> Model" where
  "addLog now message m =
     (let m1 = m\<lparr>logs := logs m @ [''['' @ now @ ''] '' @ message]\<rparr>
      in if length (logs m1) > 10 then m1\<lparr>logs := drop 1 (logs m1)\<rparr> else m1)"

text \<open>
  The loop \<^verbatim>\<open>for _, d := range m.devices\<close> with its early return; \<open>dev\<close> is the
  parameter \<^verbatim>\<open>device\<close>.
\<close>

fun deviceExists :: "DeviceInfo list \<Rightarrow> DeviceInfo \<Rightarrow> bool" where
  "deviceExists [] dev = False"
| "deviceExists (d # ds) dev =
     (if AddressStr d = AddressStr dev then True else deviceExists ds dev)"

definition addDevice :: "string \<Rightarrow> DeviceInfo \<Rightarrow> Model \<Rightarrow> Model" where
  "addDevice now dev m =
     (if deviceExists (devices m) dev then m
      else addLog now
             (''Found: '' @ Name_DeviceInfo dev @ '' ('' @ AddressStr dev @ '')'')
             (m\<lparr>devices := devices m @ [dev]\<rparr>))"

text \<open>
  The update loop calls \<open>addDevice\<close> once for each device message; \<open>addDevices\<close> is
  that succession of calls, each with its clock reading.
\<close>

fun addDevices :: "Model \<Rightarrow> (string \<times> DeviceInfo) list \<Rightarrow> Model" where
  "addDevices m [] = m"
| "addDevices m ((now, dev) # rest) = addDevices (addDevice now dev m) rest"

subsection \<open>Concrete environments and clients\<close>

text \<open>
  A stack on which every call succeeds, one whose third write fails, the client that
  \<open>NewClient\<close> returns and the client after a successful \<open>Connect\<close>.
\<close>

definition example_stack :: Stack where
  "example_stack =
     \<lparr>adapter_Enable = None,
      adapter_Connect = (\<lambda>address. Inr (MkDevice 1)),
      device_DiscoverServices = (\<lambda>dev uuids. Inr [MkDeviceService 1]),
      service_DiscoverCharacteristics = (\<lambda>svc uuids. Inr [MkDeviceCharacteristic 1]),
      device_Disconnect = (\<lambda>dev. None),
      char_WriteWithoutResponse = (\<lambda>tr ch payload. None),
      ParseUUID = (\<lambda>s. (MkUUID (length s), None))\<rparr>"

definition example_third_write_fails :: Stack where
  "example_third_write_fails =
     example_stack\<lparr>char_WriteWithoutResponse :=
       (\<lambda>tr ch payload. if length (attempted tr) = 2 then Some (errors_New ''link lost'') else None)\<rparr>"

definition example_fresh :: Client where
  "example_fresh =
     \<lparr>device = MkDevice 0, service = MkDeviceService 0, char = MkDeviceCharacteristic 0,
      state = Disconnected, deviceName = [], lastError = None, stopScan = []\<rparr>"

definition example_connected :: Client where
  "example_connected =
     \<lparr>device = MkDevice 1, service = MkDeviceService 1, char = MkDeviceCharacteristic 1,
      state = Connected, deviceName = ''AA:BB:CC:DD:EE:FF'', lastError = None, stopScan = []\<rparr>"

definition example_write_fails :: Stack where
  "example_write_fails =
     example_stack\<lparr>char_WriteWithoutResponse :=
       (\<lambda>tr ch payload. Some (errors_New ''link lost''))\<rparr>"

text \<open>
  A stack whose service discovery finds nothing, and the client after \<open>Connect\<close> has
  failed on it.
\<close>

definition example_no_service :: Stack where
  "example_no_service = example_stack\<lparr>device_DiscoverServices := (\<lambda>dev uuids. Inr [])\<rparr>"

definition example_failed :: Client where
  "example_failed =
     \<lparr>device = MkDevice 1, service = MkDeviceService 0, char = MkDeviceCharacteristic 0,
      state = Error, deviceName = [],
      lastError = Some (errors_New ''Sony camera service not found''), stopScan = []\<rparr>"





text \<open>
  The empty device list of a new scan session, a camera as the scan reports it, and the
  list after this camera was added at 10:00:00.
\<close>

definition example_model :: Model where
  "example_model = \<lparr>devices = [], logs = []\<rparr>"

definition example_camera :: DeviceInfo where
  "example_camera =
     \<lparr>Name_DeviceInfo = ''ILCE-7M4'', Address = MkAddress ''AA:BB:CC:DD:EE:FF'',
      AddressStr = ''AA:BB:CC:DD:EE:FF'', RSSI = - 45\<rparr>"

definition example_listed :: Model where
  "example_listed =
     \<lparr>devices = [example_camera], logs = [''[10:00:00] Found: ILCE-7M4 (AA:BB:CC:DD:EE:FF)'']\<rparr>"

subsection \<open>The state machine as the specification enumerates it\<close>


subsection \<open>Command registry\<close>

lemma Commands_keys:
  "map fst Commands =
    [''focus_down'', ''focus_up'', ''autofocus_down'', ''autofocus_up'',
     ''shutter_half_down'', ''shutter_half_up'', ''shutter_full_down'', ''shutter_full_up'',
     ''record_toggle'', ''record_down'', ''zoom_in_down'', ''zoom_in_up'',
     ''zoom_out_down'', ''zoom_out_up'', ''c1_down'', ''c1_up'']"
  by (simp add: Commands_def)

lemma Commands_distinct: "distinct (map fst Commands)"
  unfolding Commands_keys by simp

text \<open>
  C6. The registry maps each of the sixteen keys to the listed byte-code, it has no other
  key, and the two UUID constants are the two fixed strings.
\<close>

theorem Commands_byte_codes:
  "map (\<lambda>(key, cmd). (key, Code cmd)) Commands =
     [(''focus_down'', [0x01, 0x07]), (''focus_up'', [0x01, 0x06]),
      (''autofocus_down'', [0x01, 0x15]), (''autofocus_up'', [0x01, 0x14]),
      (''shutter_half_down'', [0x01, 0x07]), (''shutter_half_up'', [0x01, 0x06]),
      (''shutter_full_down'', [0x01, 0x09]), (''shutter_full_up'', [0x01, 0x08]),
      (''record_toggle'', [0x01, 0x0e]), (''record_down'', [0x01, 0x0f]),
      (''zoom_in_down'', [0x02, 0x6d, 0x20]), (''zoom_in_up'', [0x02, 0x6c, 0x00]),
      (''zoom_out_down'', [0x02, 0x6b, 0x20]), (''zoom_out_up'', [0x02, 0x6a, 0x00]),
      (''c1_down'', [0x01, 0x21]), (''c1_up'', [0x01, 0x20])]
   \<and> distinct (map fst Commands)
   \<and> map_option Code (Commands_lookup ''focus_down'') = Some [0x01, 0x07]
   \<and> map_option Code (Commands_lookup ''focus_up'') = Some [0x01, 0x06]
   \<and> map_option Code (Commands_lookup ''autofocus_down'') = Some [0x01, 0x15]
   \<and> map_option Code (Commands_lookup ''autofocus_up'') = Some [0x01, 0x14]
   \<and> map_option Code (Commands_lookup ''shutter_half_down'') = Some [0x01, 0x07]
   \<and> map_option Code (Commands_lookup ''shutter_half_up'') = Some [0x01, 0x06]
   \<and> map_option Code (Commands_lookup ''shutter_full_down'') = Some [0x01, 0x09]
   \<and> map_option Code (Commands_lookup ''shutter_full_up'') = Some [0x01, 0x08]
   \<and> map_option Code (Commands_lookup ''record_toggle'') = Some [0x01, 0x0e]
   \<and> map_option Code (Commands_lookup ''record_down'') = Some [0x01, 0x0f]
   \<and> map_option Code (Commands_lookup ''zoom_in_down'') = Some [0x02, 0x6d, 0x20]
   \<and> map_option Code (Commands_lookup ''zoom_in_up'') = Some [0x02, 0x6c, 0x00]
   \<and> map_option Code (Commands_lookup ''zoom_out_down'') = Some [0x02, 0x6b, 0x20]
   \<and> map_option Code (Commands_lookup ''zoom_out_up'') = Some [0x02, 0x6a, 0x00]
   \<and> map_option Code (Commands_lookup ''c1_down'') = Some [0x01, 0x21]
   \<and> map_option Code (Commands_lookup ''c1_up'') = Some [0x01, 0x20]
   \<and> SonyServiceUUID = ''8000ff00-ff00-ffff-ffff-ffffffffffff''
   \<and> CommandCharUUID = ''0000ff01-0000-1000-8000-00805f9b34fb''"
  unfolding Commands_lookup_def SonyServiceUUID_def CommandCharUUID_def
  by (simp add: Commands_def)

text \<open>
  C7. \<open>TakePhotoSequence\<close> has exactly four entries: the registry entries of focus_down,
  shutter_full_down, shutter_full_up and focus_up, in this order. It takes no argument and
  reads nothing but the registry, so it denotes one value.
\<close>

theorem TakePhotoSequence_fixed:
  "length TakePhotoSequence = 4
   \<and> map Some TakePhotoSequence =
       map Commands_lookup [''focus_down'', ''shutter_full_down'', ''shutter_full_up'', ''focus_up'']
   \<and> TakePhotoSequence =
       [\<lparr>Name = ''Focus Down'', Code = [0x01, 0x07]\<rparr>,
        \<lparr>Name = ''Shutter Full Down'', Code = [0x01, 0x09]\<rparr>,
        \<lparr>Name = ''Shutter Full Up'', Code = [0x01, 0x08]\<rparr>,
        \<lparr>Name = ''Focus Up'', Code = [0x01, 0x06]\<rparr>]"
  unfolding TakePhotoSequence_def Commands_index_def Commands_lookup_def
  by (simp add: Commands_def)

subsection \<open>Identifier filter\<close>

lemma matchFrom_iff:
  "matchFrom nm ident i \<longleftrightarrow>
     (\<exists>j\<ge>i. int j \<le> int (length nm) - int (length ident)
        \<and> take (length ident) (drop j nm) = ident)"
proof (induction nm ident i rule: matchFrom.induct)
  case (1 nm ident i)
  show ?case
  proof (cases "int i \<le> int (length nm) - int (length ident)")
    case False
    then show ?thesis
      by (subst matchFrom.simps) auto
  next
    case inr: True
    show ?thesis
    proof (cases "take (length ident) (drop i nm) = ident")
      case True
      with inr show ?thesis
        by (subst matchFrom.simps) auto
    next
      case False
      have "matchFrom nm ident i = matchFrom nm ident (i + 1)"
        using inr False by (subst matchFrom.simps) simp
      also have "\<dots> \<longleftrightarrow> (\<exists>j\<ge>i + 1. int j \<le> int (length nm) - int (length ident)
        \<and> take (length ident) (drop j nm) = ident)"
        using "1.IH" [OF inr False] .
      also have "\<dots> \<longleftrightarrow> (\<exists>j\<ge>i. int j \<le> int (length nm) - int (length ident)
        \<and> take (length ident) (drop j nm) = ident)"
        using False by (metis Suc_eq_plus1 Suc_leD le_antisym not_less_eq_eq)
      finally show ?thesis .
    qed
  qed
qed

lemma matchFrom_sublist: "matchFrom nm ident 0 \<longleftrightarrow> sublist ident nm"
proof
  assume "matchFrom nm ident 0"
  then obtain j where j: "take (length ident) (drop j nm) = ident"
    unfolding matchFrom_iff by blast
  have "nm = take j nm @ take (length ident) (drop j nm) @ drop (length ident) (drop j nm)"
    by (metis append_take_drop_id)
  with j have "nm = take j nm @ ident @ drop (length ident) (drop j nm)"
    by simp
  then show "sublist ident nm"
    unfolding sublist_def by blast
next
  assume "sublist ident nm"
  then obtain ps ss where nm: "nm = ps @ ident @ ss"
    unfolding sublist_def by blast
  have "int (length ps) \<le> int (length nm) - int (length ident)"
    by (simp add: nm)
  moreover have "take (length ident) (drop (length ps) nm) = ident"
    by (simp add: nm)
  ultimately show "matchFrom nm ident 0"
    unfolding matchFrom_iff by blast
qed

lemma sublist_length_le: "sublist xs ys \<Longrightarrow> length xs \<le> length ys"
  by (auto simp: sublist_def)

lemma identifierLoop_iff:
  "identifierLoop nm ids \<longleftrightarrow> (\<exists>ident\<in>set ids. sublist ident nm)"
  by (induction ids) (auto simp: matchFrom_sublist dest: sublist_length_le)

text \<open>
  C8. The filter is substring containment, byte for byte and therefore case-sensitive:
  it answers true exactly for the names that contain one of its six fixed substrings.
  So a name containing ILCE, DSC, FX, Alpha or the alpha symbol is accepted, a name
  containing none of the six is rejected, and so is the empty name.
\<close>

theorem containsSonyIdentifier_substring:
  "(containsSonyIdentifier name \<longleftrightarrow> (\<exists>ident\<in>set sonyIdentifiers. sublist ident name))
   \<and> (sublist ''ILCE'' name \<or> sublist ''DSC'' name \<or> sublist ''FX'' name
        \<or> sublist ''Alpha'' name \<or> sublist [CHR 0xCE, CHR 0xB1] name
      \<longrightarrow> containsSonyIdentifier name)
   \<and> ((\<forall>ident\<in>set sonyIdentifiers. \<not> sublist ident name) \<longrightarrow> \<not> containsSonyIdentifier name)
   \<and> \<not> containsSonyIdentifier []"
proof -
  have main: "containsSonyIdentifier nm \<longleftrightarrow> (\<exists>ident\<in>set sonyIdentifiers. sublist ident nm)" for nm
    by (simp add: containsSonyIdentifier_def identifierLoop_iff)
  have empty: "\<not> containsSonyIdentifier []"
    unfolding main by (simp add: sonyIdentifiers_def)
  have listed: "sublist ''ILCE'' name \<or> sublist ''DSC'' name \<or> sublist ''FX'' name
        \<or> sublist ''Alpha'' name \<or> sublist [CHR 0xCE, CHR 0xB1] name
      \<longrightarrow> containsSonyIdentifier name"
    unfolding main by (auto simp: sonyIdentifiers_def)
  from main empty listed show ?thesis by blast
qed

text \<open>
  C8, at concrete names: a camera name, a headphone name, and a name that has the
  substrings only in lower case.
\<close>

theorem containsSonyIdentifier_substring_witness:
  "sublist ''ILCE'' ''ILCE-7M4'' \<and> containsSonyIdentifier ''ILCE-7M4''
   \<and> \<not> (\<exists>ident\<in>set sonyIdentifiers. sublist ident ''WH-1000XM4'')
   \<and> \<not> containsSonyIdentifier ''WH-1000XM4''
   \<and> \<not> (\<exists>ident\<in>set sonyIdentifiers. sublist ident ''ilce-7m4 alpha sony'')
   \<and> \<not> containsSonyIdentifier ''ilce-7m4 alpha sony''"
proof -
  have a: "sublist ''ILCE'' ''ILCE-7M4''"
    by (simp add: sublist_Cons_right)
  have b: "\<not> (\<exists>ident\<in>set sonyIdentifiers. sublist ident ''WH-1000XM4'')"
    by (simp add: sonyIdentifiers_def sublist_Cons_right)
  have c: "\<not> (\<exists>ident\<in>set sonyIdentifiers. sublist ident ''ilce-7m4 alpha sony'')"
    by (simp add: sonyIdentifiers_def sublist_Cons_right)
  show ?thesis
    using a b c containsSonyIdentifier_substring [of "''ILCE-7M4''"]
      containsSonyIdentifier_substring [of "''WH-1000XM4''"]
      containsSonyIdentifier_substring [of "''ilce-7m4 alpha sony''"]
    by blast
qed

subsection \<open>Sending commands\<close>

lemma NewClient_example: "NewClient example_stack = Inr example_fresh"
  by (simp add: NewClient_def example_stack_def example_fresh_def)

lemma Connect_example:
  "Connect example_stack example_fresh (MkAddress ''AA:BB:CC:DD:EE:FF'') = (None, example_connected)"
  by (simp add: Connect_def example_stack_def example_fresh_def example_connected_def)

text \<open>
  C3. In every state other than \<open>Connected\<close>, \<open>SendCommand\<close> returns the error
  ``not connected to device'' and leaves the client (its state and its device, service
  and characteristic handles) and the trace as they were: nothing is written.
\<close>

theorem SendCommand_not_connected:
  "state c \<noteq> Connected \<Longrightarrow>
     SendCommand st c tr cmd = (Some (errors_New ''not connected to device''), c, tr)"
  by (simp add: SendCommand_def)

text \<open>C3, at a concrete input: the client as \<open>NewClient\<close> returns it.\<close>

theorem SendCommand_not_connected_witness:
  "state example_fresh \<noteq> Connected
   \<and> SendCommand example_stack example_fresh [] (Commands_index ''focus_down'')
       = (Some (errors_New ''not connected to device''), example_fresh, [])"
proof -
  have h: "state example_fresh \<noteq> Connected"
    by (simp add: example_fresh_def)
  show ?thesis
    using h SendCommand_not_connected [OF h] by simp
qed

lemma attempted_append: "attempted (xs @ ys) = attempted xs @ attempted ys"
  by (induction xs rule: attempted.induct) simp_all

lemma written_append: "written (xs @ ys) = written xs @ written ys"
  by (induction xs rule: written.induct) simp_all

lemma SendCommand_None:
  "SendCommand st c tr cmd = (None, c', tr') \<Longrightarrow>
     c' = c \<and> tr' = tr @ [Write (char c) (Code cmd) None]"
  by (auto simp: SendCommand_def Let_def split: if_splits option.splits)

lemma SendCommand_Some:
  "SendCommand st c tr cmd = (Some err, c', tr') \<Longrightarrow>
     written tr' = written tr
     \<and> (attempted tr' = attempted tr \<or> attempted tr' = attempted tr @ [Code cmd])"
  by (auto simp: SendCommand_def Let_def written_append attempted_append
      split: if_splits option.splits)

text \<open>
  C5. \<open>SendCommandSequence\<close> sends a prefix of the list, in the order of the list: there
  is an \<open>n\<close> such that the first \<open>n\<close> commands were sent one after the other without
  error and their codes are exactly what was written. Without an error \<open>n\<close> is the whole
  list. With an error, it is the error \<open>SendCommand\<close> returned for the command at index
  \<open>n\<close>, this call is the last thing done, and no later command reaches the
  characteristic. Earlier writes stay in the trace.
\<close>

theorem SendCommandSequence_in_order:
  assumes "SendCommandSequence st c tr commands delay = (res, c', tr')"
  shows "\<exists>n cn trn. n \<le> length commands
     \<and> SendCommandSequence st c tr (take n commands) delay = (None, cn, trn)
     \<and> (case res of
          None \<Rightarrow> n = length commands \<and> c' = cn \<and> tr' = trn
        | Some err \<Rightarrow> n < length commands
            \<and> SendCommand st cn trn (commands ! n) = (Some err, c', tr'))
     \<and> written tr' = written tr @ map Code (take n commands)
     \<and> (attempted tr' = attempted tr @ map Code (take n commands)
        \<or> attempted tr' = attempted tr @ map Code (take (Suc n) commands))"
  using assms
proof (induction commands arbitrary: c tr)
  case Nil
  then show ?case by auto
next
  case (Cons cmd commands)
  obtain r1 c1 tr1 where first: "SendCommand st c tr cmd = (r1, c1, tr1)"
    by (cases "SendCommand st c tr cmd") auto
  show ?case
  proof (cases r1)
    case (Some err)
    with first Cons.prems have res: "res = Some err" "c' = c1" "tr' = tr1"
      by auto
    from first Some SendCommand_Some [of st c tr cmd err c1 tr1]
    have "written tr1 = written tr"
      and "attempted tr1 = attempted tr \<or> attempted tr1 = attempted tr @ [Code cmd]"
      by auto
    with first Some res show ?thesis
      by (intro exI [of _ 0] exI [of _ c] exI [of _ tr]) auto
  next
    case None
    with first SendCommand_None [of st c tr cmd c1 tr1]
    have c1: "c1 = c" and tr1: "tr1 = tr @ [Write (char c) (Code cmd) None]"
      by auto
    define tr2 where "tr2 = (if 0 <s delay then tr1 @ [Sleep delay] else tr1)"
    have step: "SendCommandSequence st c tr (cmd # cmds) delay
                  = SendCommandSequence st c tr2 cmds delay" for cmds
      using first None c1 by (simp add: tr2_def)
    have w2: "written tr2 = written tr @ [Code cmd]"
      and a2: "attempted tr2 = attempted tr @ [Code cmd]"
      by (simp_all add: tr2_def tr1 written_append attempted_append)
    from Cons.prems step have "SendCommandSequence st c tr2 commands delay = (res, c', tr')"
      by simp
    from Cons.IH [OF this] obtain n cn trn where n: "n \<le> length commands"
      and pre: "SendCommandSequence st c tr2 (take n commands) delay = (None, cn, trn)"
      and res: "(case res of
          None \<Rightarrow> n = length commands \<and> c' = cn \<and> tr' = trn
        | Some err \<Rightarrow> n < length commands
            \<and> SendCommand st cn trn (commands ! n) = (Some err, c', tr'))"
      and w: "written tr' = written tr2 @ map Code (take n commands)"
      and a: "attempted tr' = attempted tr2 @ map Code (take n commands)
        \<or> attempted tr' = attempted tr2 @ map Code (take (Suc n) commands)"
      by blast
    show ?thesis
    proof (intro exI [of _ "Suc n"] exI [of _ cn] exI [of _ trn] conjI)
      show "Suc n \<le> length (cmd # commands)"
        using n by simp
      show "SendCommandSequence st c tr (take (Suc n) (cmd # commands)) delay = (None, cn, trn)"
        using pre step by simp
      show "case res of
          None \<Rightarrow> Suc n = length (cmd # commands) \<and> c' = cn \<and> tr' = trn
        | Some err \<Rightarrow> Suc n < length (cmd # commands)
            \<and> SendCommand st cn trn ((cmd # commands) ! Suc n) = (Some err, c', tr')"
        using res by (cases res) auto
      show "written tr' = written tr @ map Code (take (Suc n) (cmd # commands))"
        using w w2 by simp
      show "attempted tr' = attempted tr @ map Code (take (Suc n) (cmd # commands))
        \<or> attempted tr' = attempted tr @ map Code (take (Suc (Suc n)) (cmd # commands))"
        using a a2 by auto
    qed
  qed
qed

text \<open>
  C5, at a concrete input: the photo sequence on a connected client whose third write
  fails. Two codes are written, the third is attempted, the fourth is never sent.
\<close>

theorem SendCommandSequence_in_order_witness:
  "SendCommandSequence example_third_write_fails example_connected [] TakePhotoSequence 0
     = (Some (Errorf_w ''failed to send command Shutter Full Up'' (errors_New ''link lost'')),
        example_connected\<lparr>lastError :=
          Some (Errorf_w ''failed to send command Shutter Full Up'' (errors_New ''link lost''))\<rparr>,
        [Write (MkDeviceCharacteristic 1) [0x01, 0x07] None,
         Write (MkDeviceCharacteristic 1) [0x01, 0x09] None,
         Write (MkDeviceCharacteristic 1) [0x01, 0x08] (Some (errors_New ''link lost''))])
   \<and> (\<exists>n < length TakePhotoSequence.
         written [Write (MkDeviceCharacteristic 1) [0x01, 0x07] None,
                  Write (MkDeviceCharacteristic 1) [0x01, 0x09] None,
                  Write (MkDeviceCharacteristic 1) [0x01, 0x08] (Some (errors_New ''link lost''))]
           = map Code (take n TakePhotoSequence))"
proof -
  have run: "SendCommandSequence example_third_write_fails example_connected [] TakePhotoSequence 0
     = (Some (Errorf_w ''failed to send command Shutter Full Up'' (errors_New ''link lost'')),
        example_connected\<lparr>lastError :=
          Some (Errorf_w ''failed to send command Shutter Full Up'' (errors_New ''link lost''))\<rparr>,
        [Write (MkDeviceCharacteristic 1) [0x01, 0x07] None,
         Write (MkDeviceCharacteristic 1) [0x01, 0x09] None,
         Write (MkDeviceCharacteristic 1) [0x01, 0x08] (Some (errors_New ''link lost''))])"
    by (simp add: TakePhotoSequence_def Commands_index_def Commands_def SendCommand_def
        example_third_write_fails_def example_stack_def example_connected_def)
  from SendCommandSequence_in_order [OF run] run show ?thesis
    by auto
qed


text \<open>
  The failure paths of the client side by side: \<open>Connect\<close> and \<open>Disconnect\<close> record
  the error they return and set \<open>Error\<close>; a failing write is recorded as well.
\<close>

lemma Connect_failure:
  "Connect st c address = (Some err, c') \<Longrightarrow> lastError c' = Some err \<and> state c' = Error"
  by (auto simp: Connect_def Let_def split: sum.splits list.splits)

lemma Disconnect_failure:
  "Disconnect st c = (Some err, c') \<Longrightarrow> lastError c' = Some err \<and> state c' = Error"
  by (auto simp: Disconnect_def split: if_splits option.splits)

lemma SendCommand_write_failure:
  "state c = Connected \<Longrightarrow> SendCommand st c tr cmd = (Some err, c', tr') \<Longrightarrow>
     lastError c' = Some err \<and> attempted tr' = attempted tr @ [Code cmd]"
  by (auto simp: SendCommand_def Let_def attempted_append split: option.splits)

text \<open>
  C1. The claim asks for the state \<open>Error\<close> after a failing write. At the input below
  (a connected client, a write that fails) \<open>SendCommand\<close> returns the wrapped error and
  records it, as every other failure path of the client does, but the state it leaves
  is still \<open>Connected\<close>.
\<close>

theorem SendCommand_write_failure_stays_Connected:
  "state example_connected = Connected
   \<and> char_WriteWithoutResponse example_write_fails [] (char example_connected)
        (Code (Commands_index ''focus_down'')) = Some (errors_New ''link lost'')
   \<and> SendCommand example_write_fails example_connected [] (Commands_index ''focus_down'')
       = (Some (Errorf_w ''failed to send command Focus Down'' (errors_New ''link lost'')),
          example_connected\<lparr>lastError :=
            Some (Errorf_w ''failed to send command Focus Down'' (errors_New ''link lost''))\<rparr>,
          [Write (MkDeviceCharacteristic 1) [0x01, 0x07] (Some (errors_New ''link lost''))])
   \<and> State (fst (snd (SendCommand example_write_fails example_connected []
        (Commands_index ''focus_down'')))) = Connected"
  by (simp add: SendCommand_def State_def Commands_index_def Commands_def
      example_write_fails_def example_stack_def example_connected_def)

text \<open>
  C4. The claim asks that every error a call returns be readable through \<open>LastError\<close>.
  At the input below (a client that is not connected) \<open>SendCommand\<close> returns its error
  and \<open>LastError\<close> still reads nil.
\<close>

theorem SendCommand_not_connected_LastError:
  "fst (SendCommand example_stack example_fresh [] (Commands_index ''focus_down''))
     = Some (errors_New ''not connected to device'')
   \<and> LastError (fst (snd (SendCommand example_stack example_fresh []
        (Commands_index ''focus_down'')))) = None"
  by (simp add: SendCommand_def LastError_def example_fresh_def)


subsection \<open>Device list\<close>

lemma deviceExists_iff: "deviceExists ds dev \<longleftrightarrow> AddressStr dev \<in> AddressStr ` set ds"
  by (induction ds) auto

lemma devices_addLog: "devices (addLog now message m) = devices m"
  by (simp add: addLog_def Let_def)

lemma devices_addDevice:
  "devices (addDevice now dev m) =
     (if AddressStr dev \<in> AddressStr ` set (devices m) then devices m else devices m @ [dev])"
  by (simp add: addDevice_def deviceExists_iff devices_addLog)

lemma addDevices_distinct:
  "distinct (map AddressStr (devices m)) \<Longrightarrow>
     distinct (map AddressStr (devices (addDevices m xs)))"
proof (induction xs arbitrary: m)
  case Nil
  then show ?case by simp
next
  case (Cons x xs)
  obtain now dev where x: "x = (now, dev)" by (cases x)
  have "distinct (map AddressStr (devices (addDevice now dev m)))"
    using Cons.prems by (auto simp: devices_addDevice)
  from Cons.IH [OF this] show ?case
    by (simp add: x)
qed

lemma addDevices_addresses:
  "AddressStr ` set (devices (addDevices m xs))
     = AddressStr ` (set (devices m) \<union> snd ` set xs)"
proof (induction xs arbitrary: m)
  case Nil
  then show ?case by simp
next
  case (Cons x xs)
  obtain now dev where x: "x = (now, dev)" by (cases x)
  have "AddressStr ` set (devices (addDevice now dev m))
          = insert (AddressStr dev) (AddressStr ` set (devices m))"
    by (auto simp: devices_addDevice)
  with Cons.IH [of "addDevice now dev m"] show ?case
    by (simp add: x image_Un)
qed

lemma addDevices_prefix: "prefix (devices m) (devices (addDevices m xs))"
proof (induction xs arbitrary: m)
  case Nil
  then show ?case by simp
next
  case (Cons x xs)
  obtain now dev where x: "x = (now, dev)" by (cases x)
  have "prefix (devices m) (devices (addDevice now dev m))"
    by (simp add: devices_addDevice)
  with Cons.IH [of "addDevice now dev m"] show ?case
    by (auto simp: x intro: prefix_order.trans)
qed

text \<open>
  C9. On a device list whose entries have pairwise different address strings, adding a
  record whose address string is already there changes nothing, whatever its name or
  signal strength. After any succession of additions the address strings are still
  pairwise different, the entries that were there are still there, first and unchanged,
  and the list is no longer than the number of different address strings seen.
\<close>

theorem addDevice_unique_by_address:
  assumes "distinct (map AddressStr (devices m))"
  shows "(AddressStr dev \<in> AddressStr ` set (devices m) \<longrightarrow> addDevice now dev m = m)
     \<and> distinct (map AddressStr (devices (addDevices m xs)))
     \<and> prefix (devices m) (devices (addDevices m xs))
     \<and> length (devices (addDevices m xs))
         \<le> card (AddressStr ` (set (devices m) \<union> snd ` set xs))"
proof -
  let ?m' = "addDevices m xs"
  have d: "distinct (map AddressStr (devices ?m'))"
    using assms by (rule addDevices_distinct)
  then have "length (devices ?m') = card (AddressStr ` set (devices ?m'))"
    by (metis distinct_card length_map set_map)
  then have "length (devices ?m') \<le> card (AddressStr ` (set (devices m) \<union> snd ` set xs))"
    by (simp add: addDevices_addresses)
  moreover have "AddressStr dev \<in> AddressStr ` set (devices m) \<longrightarrow> addDevice now dev m = m"
    by (simp add: addDevice_def deviceExists_iff)
  ultimately show ?thesis
    using d addDevices_prefix by blast
qed

lemma addDevice_example: "addDevice ''10:00:00'' example_camera example_model = example_listed"
  by (simp add: addDevice_def addLog_def example_model_def example_listed_def example_camera_def)

text \<open>
  C9, at a concrete input: the camera already listed is reported again with a weaker
  signal.
\<close>

theorem addDevice_unique_by_address_witness:
  "distinct (map AddressStr (devices example_listed))
   \<and> AddressStr (example_camera\<lparr>RSSI := - 60\<rparr>) \<in> AddressStr ` set (devices example_listed)
   \<and> addDevice ''10:00:01'' (example_camera\<lparr>RSSI := - 60\<rparr>) example_listed = example_listed
   \<and> devices (addDevices example_listed [(''10:00:01'', example_camera\<lparr>RSSI := - 60\<rparr>)])
        = [example_camera]
   \<and> length (devices (addDevices example_listed [(''10:00:01'', example_camera\<lparr>RSSI := - 60\<rparr>)]))
        \<le> 1"
proof -
  have h: "distinct (map AddressStr (devices example_listed))"
    by (simp add: example_listed_def)
  have p: "AddressStr (example_camera\<lparr>RSSI := - 60\<rparr>) \<in> AddressStr ` set (devices example_listed)"
    by (simp add: example_listed_def)
  have c: "card (AddressStr ` (set (devices example_listed)
             \<union> snd ` set [(''10:00:01'', example_camera\<lparr>RSSI := - 60\<rparr>)])) = 1"
    by (simp add: example_listed_def)
  from addDevice_unique_by_address [OF h, of "example_camera\<lparr>RSSI := - 60\<rparr>" "''10:00:01''"
      "[(''10:00:01'', example_camera\<lparr>RSSI := - 60\<rparr>)]"] h p c
  show ?thesis
    by (simp add: example_listed_def)
qed

subsection \<open>State machine\<close>

lemma Connect_no_service_example:
  "Connect example_no_service example_fresh (MkAddress ''AA:BB:CC:DD:EE:FF'')
     = (Some (errors_New ''Sony camera service not found''), example_failed)"
  by (simp add: Connect_def example_no_service_def example_stack_def example_fresh_def
      example_failed_def)













end
